theory Spec2Isabelle
  imports Main
begin

section \<open>Python values of the webhook payloads and task fields\<close>

text \<open>
  The filters of \<^verbatim>\<open>clickup_sdk/webhook/filters.py\<close> and the formatters of
  \<^verbatim>\<open>clickup/savdo/when_broker_set/components.py\<close> inspect duck-typed values that
  come out of JSON. They are modelled by the datatype \<open>pyval\<close>: \<open>None\<close>, booleans,
  unbounded integers, floats, strings, lists and dictionaries with string keys (an
  association list, read with \<open>map_of\<close>).
  Strings are lists of 8-bit characters; \<open>str.lower\<close> and \<open>str.upper\<close> are modelled on
  the ASCII letters.

  A finite float is its sign, a mantissa and a binary exponent, of value
  \<open>mantissa * 2 ^ exponent\<close>, together with the decimal text that \<^verbatim>\<open>repr\<close> prints for it:
  the text is a function of the float that the interpreter computes (the shortest decimal
  that reads back as the same float), and the model carries it with the value instead of
  computing it. The other floats are the two infinities and \<^verbatim>\<open>nan\<close>.

  Every exception that the modelled code can raise is a value of \<open>py_error\<close>, and a
  function that can raise returns \<open>py_error + 'a\<close> with \<open>Inl\<close> for the exception.
\<close>

datatype py_error = ValueError | TypeError | AttributeError | OverflowError | OSError

datatype pyfloat =
    Finite bool nat int string
  | Infinite bool
  | NaN

datatype pyval =
    PNone
  | PBool bool
  | PInt int
  | PFloat pyfloat
  | PStr string
  | PList "pyval list"
  | PDict "(string \<times> pyval) list"

type_synonym pydict = "(string \<times> pyval) list"

text \<open>\<^verbatim>\<open>d.get(k, default)\<close> on a dictionary.\<close>

definition dict_get :: "pydict \<Rightarrow> string \<Rightarrow> pyval \<Rightarrow> pyval" where
  "dict_get d k dflt = (case map_of d k of None \<Rightarrow> dflt | Some v \<Rightarrow> v)"

text \<open>Python truthiness (\<^verbatim>\<open>bool(v)\<close>, as used by \<^verbatim>\<open>if v\<close>, \<^verbatim>\<open>not v\<close>, \<^verbatim>\<open>and\<close>, \<^verbatim>\<open>or\<close>).\<close>

fun truthy :: "pyval \<Rightarrow> bool" where
  "truthy PNone = False"
| "truthy (PBool b) = b"
| "truthy (PInt n) = (n \<noteq> 0)"
| "truthy (PFloat (Finite negative mantissa exponent text)) = (mantissa \<noteq> 0)"
| "truthy (PFloat (Infinite negative)) = True"
| "truthy (PFloat NaN) = True"
| "truthy (PStr s) = (s \<noteq> [])"
| "truthy (PList xs) = (xs \<noteq> [])"
| "truthy (PDict d) = (d \<noteq> [])"

text \<open>Truthiness of an \<^verbatim>\<open>Optional[str]\<close> attribute: \<^verbatim>\<open>None\<close> and \<^verbatim>\<open>""\<close> are falsy.\<close>

fun truthy_opt :: "string option \<Rightarrow> bool" where
  "truthy_opt None = False"
| "truthy_opt (Some s) = (s \<noteq> [])"

text \<open>\<^verbatim>\<open>a or b\<close> on values.\<close>

definition py_or :: "pyval \<Rightarrow> pyval \<Rightarrow> pyval" where
  "py_or a b = (if truthy a then a else b)"

subsection \<open>Strings\<close>

definition lower_char :: "char \<Rightarrow> char" where
  "lower_char c =
     (let n = (of_char c :: nat) in if 65 \<le> n \<and> n \<le> 90 then char_of (n + 32) else c)"

definition upper_char :: "char \<Rightarrow> char" where
  "upper_char c =
     (let n = (of_char c :: nat) in if 97 \<le> n \<and> n \<le> 122 then char_of (n - 32) else c)"

definition str_lower :: "string \<Rightarrow> string" where
  "str_lower s = map lower_char s"

definition str_upper :: "string \<Rightarrow> string" where
  "str_upper s = map upper_char s"

text \<open>\<^verbatim>\<open>v.lower()\<close> on a value: only a string has the method.\<close>

fun py_lower :: "pyval \<Rightarrow> py_error + string" where
  "py_lower (PStr s) = Inr (str_lower s)"
| "py_lower _ = Inl AttributeError"

fun starts_with :: "string \<Rightarrow> string \<Rightarrow> bool" where
  "starts_with [] s = True"
| "starts_with (c # cs) [] = False"
| "starts_with (c # cs) (d # ds) = (c = d \<and> starts_with cs ds)"

text \<open>\<^verbatim>\<open>sub in s\<close> on strings.\<close>

fun str_contains :: "string \<Rightarrow> string \<Rightarrow> bool" where
  "str_contains sub [] = (sub = [])"
| "str_contains sub (c # cs) = (starts_with sub (c # cs) \<or> str_contains sub cs)"

text \<open>\<^verbatim>\<open>s.replace(a, b)\<close> for one-character \<open>a\<close> and \<open>b\<close>.\<close>

definition str_replace_char :: "char \<Rightarrow> char \<Rightarrow> string \<Rightarrow> string" where
  "str_replace_char a b s = map (\<lambda>c. if c = a then b else c) s"

subsection \<open>Integers and their decimal form\<close>

definition digit_char :: "nat \<Rightarrow> char" where
  "digit_char d = char_of (48 + d)"

function digits :: "nat \<Rightarrow> string" where
  "digits n = (if n < 10 then [digit_char n] else digits (n div 10) @ [digit_char (n mod 10)])"
  by pat_completeness auto
termination
  by (relation "measure id") auto

declare digits.simps [simp del]

text \<open>\<^verbatim>\<open>str(n)\<close> for an integer.\<close>

definition str_int :: "int \<Rightarrow> string" where
  "str_int n = (if n < 0 then CHR ''-'' # digits (nat (- n)) else digits (nat n))"

text \<open>
  \<^verbatim>\<open>f"{n:,}"\<close>: the decimal digits in groups of three from the right, separated by commas,
  after the sign.
\<close>

fun group3 :: "string \<Rightarrow> string" where
  "group3 (a # b # c # d # r) = a # b # c # CHR '','' # group3 (d # r)"
| "group3 s = s"

definition format_comma :: "int \<Rightarrow> string" where
  "format_comma n =
     (if n < 0 then CHR ''-'' # rev (group3 (rev (digits (nat (- n)))))
      else rev (group3 (rev (digits (nat n)))))"

subsection \<open>\<^verbatim>\<open>str\<close> and \<^verbatim>\<open>repr\<close>\<close>

text \<open>
  \<^verbatim>\<open>repr\<close> of a string chooses the quote (double quotes only when the string has a single
  quote and no double quote), escapes the backslash, the chosen quote, tab, newline and
  carriage return, and writes the other control characters as \<^verbatim>\<open>\xNN\<close>.
\<close>

definition hex_digit :: "nat \<Rightarrow> char" where
  "hex_digit d = (if d < 10 then char_of (48 + d) else char_of (87 + d))"

definition repr_char :: "char \<Rightarrow> char \<Rightarrow> string" where
  "repr_char q c =
     (let n = (of_char c :: nat) in
      if c = q \<or> c = CHR 0x5C then [CHR 0x5C, c]
      else if n = 9 then [CHR 0x5C, CHR ''t'']
      else if n = 10 then [CHR 0x5C, CHR ''n'']
      else if n = 13 then [CHR 0x5C, CHR ''r'']
      else if n < 32 \<or> n = 127 then [CHR 0x5C, CHR ''x'', hex_digit (n div 16), hex_digit (n mod 16)]
      else [c])"

definition repr_str :: "string \<Rightarrow> string" where
  "repr_str s =
     (let q = (if CHR 0x27 \<in> set s \<and> CHR 0x22 \<notin> set s then CHR 0x22 else CHR 0x27)
      in q # concat (map (repr_char q) s) @ [q])"

fun str_join :: "string \<Rightarrow> string list \<Rightarrow> string" where
  "str_join sep [] = []"
| "str_join sep [x] = x"
| "str_join sep (x # y # ys) = x @ sep @ str_join sep (y # ys)"

definition repr_entry :: "string \<times> string \<Rightarrow> string" where
  "repr_entry kr = repr_str (fst kr) @ '': '' @ snd kr"

fun float_repr :: "pyfloat \<Rightarrow> string" where
  "float_repr (Finite negative mantissa exponent text) = text"
| "float_repr (Infinite negative) = (if negative then ''-inf'' else ''inf'')"
| "float_repr NaN = ''nan''"

primrec py_repr :: "pyval \<Rightarrow> string" where
  "py_repr PNone = ''None''"
| "py_repr (PBool b) = (if b then ''True'' else ''False'')"
| "py_repr (PInt n) = str_int n"
| "py_repr (PFloat x) = float_repr x"
| "py_repr (PStr s) = repr_str s"
| "py_repr (PList xs) = ''['' @ str_join '', '' (map py_repr xs) @ '']''"
| "py_repr (PDict d) =
     ''{'' @ str_join '', '' (map repr_entry (map (map_prod id py_repr) d)) @ ''}''"

text \<open>\<^verbatim>\<open>str(v)\<close>: a string is itself, every other value is its \<^verbatim>\<open>repr\<close>.\<close>

definition py_str :: "pyval \<Rightarrow> string" where
  "py_str v = (case v of PStr s \<Rightarrow> s | _ \<Rightarrow> py_repr v)"

subsection \<open>\<^verbatim>\<open>int(v)\<close>\<close>

text \<open>
  \<^verbatim>\<open>int\<close> of a string strips white space (the characters 9 to 13 and the blank), reads an
  optional sign and then decimal digits, where single underscores may stand between digits;
  anything else is a \<^verbatim>\<open>ValueError\<close>, and so is a string of more than 4300 digits, the
  interpreter's default limit for the conversion. \<^verbatim>\<open>int\<close> of a finite float truncates
  towards zero, of an infinity it is an \<^verbatim>\<open>OverflowError\<close> and of \<^verbatim>\<open>nan\<close> a
  \<^verbatim>\<open>ValueError\<close>. \<^verbatim>\<open>int\<close> of \<^verbatim>\<open>None\<close>, a list or a dictionary is a \<^verbatim>\<open>TypeError\<close>.
\<close>

definition is_space :: "char \<Rightarrow> bool" where
  "is_space c = (let n = (of_char c :: nat) in (9 \<le> n \<and> n \<le> 13) \<or> n = 32)"

definition MAX_STR_DIGITS :: nat where
  "MAX_STR_DIGITS = 4300"

definition is_digit :: "char \<Rightarrow> bool" where
  "is_digit c = (let n = (of_char c :: nat) in 48 \<le> n \<and> n \<le> 57)"

definition digit_val :: "char \<Rightarrow> nat" where
  "digit_val c = of_char c - 48"

definition str_strip :: "string \<Rightarrow> string" where
  "str_strip s = rev (dropWhile is_space (rev (dropWhile is_space s)))"

fun parse_digits :: "nat \<Rightarrow> string \<Rightarrow> nat option" where
  "parse_digits acc [] = Some acc"
| "parse_digits acc [c] = (if is_digit c then Some (acc * 10 + digit_val c) else None)"
| "parse_digits acc (c # d # ds) =
     (if is_digit c then parse_digits (acc * 10 + digit_val c) (d # ds)
      else if c = CHR ''_'' \<and> is_digit d then parse_digits (acc * 10 + digit_val d) ds
      else None)"

definition parse_nat :: "string \<Rightarrow> nat option" where
  "parse_nat s =
     (case s of [] \<Rightarrow> None
      | c # cs \<Rightarrow> if is_digit c then parse_digits (digit_val c) cs else None)"

definition int_of_str :: "string \<Rightarrow> py_error + int" where
  "int_of_str s =
     (if length (filter is_digit s) > MAX_STR_DIGITS then Inl ValueError
      else
        (case str_strip s of
           [] \<Rightarrow> Inl ValueError
         | c # cs \<Rightarrow>
             if c = CHR ''-'' then
               (case parse_nat cs of None \<Rightarrow> Inl ValueError | Some n \<Rightarrow> Inr (- int n))
             else if c = CHR ''+'' then
               (case parse_nat cs of None \<Rightarrow> Inl ValueError | Some n \<Rightarrow> Inr (int n))
             else
               (case parse_nat (c # cs) of None \<Rightarrow> Inl ValueError | Some n \<Rightarrow> Inr (int n))))"

text \<open>The integer part of \<open>mantissa * 2 ^ exponent\<close>.\<close>

definition float_trunc :: "nat \<Rightarrow> int \<Rightarrow> nat" where
  "float_trunc mantissa exponent =
     (if 0 \<le> exponent then mantissa * 2 ^ nat exponent else mantissa div 2 ^ nat (- exponent))"

fun int_of_float :: "pyfloat \<Rightarrow> py_error + int" where
  "int_of_float (Finite negative mantissa exponent text) =
     Inr (if negative then - int (float_trunc mantissa exponent)
          else int (float_trunc mantissa exponent))"
| "int_of_float (Infinite negative) = Inl OverflowError"
| "int_of_float NaN = Inl ValueError"

fun py_int :: "pyval \<Rightarrow> py_error + int" where
  "py_int PNone = Inl TypeError"
| "py_int (PBool b) = Inr (if b then 1 else 0)"
| "py_int (PInt n) = Inr n"
| "py_int (PFloat x) = int_of_float x"
| "py_int (PStr s) = int_of_str s"
| "py_int (PList xs) = Inl TypeError"
| "py_int (PDict d) = Inl TypeError"

section \<open>Value formatters (\<^verbatim>\<open>components.py\<close>)\<close>

definition DEFAULT_VALUE :: string where
  "DEFAULT_VALUE = ''N/A''"

definition CURRENCY_SUFFIX :: string where
  "CURRENCY_SUFFIX = '' UZS''"

definition NUMBER_SUFFIX :: string where
  "NUMBER_SUFFIX = '' ta''"

definition MILLISECONDS_TO_SECONDS :: int where
  "MILLISECONDS_TO_SECONDS = 1000"

text \<open>
  \<^verbatim>\<open>format_currency\<close>: the sentinel for a falsy value; otherwise \<^verbatim>\<open>int(value)\<close>, grouped
  with commas, the commas replaced by spaces, and the suffix. The handler catches
  \<^verbatim>\<open>ValueError\<close> and \<^verbatim>\<open>TypeError\<close> only and returns \<^verbatim>\<open>str(value)\<close>; the warning that it
  logs is not part of the model. The values that reach the formatters come out of JSON,
  whose parser refuses an integer of more than 4300 digits, so the conversion of an integer
  to its decimal text is modelled without the interpreter's limit on its digits.
\<close>

definition format_currency :: "pyval \<Rightarrow> py_error + string" where
  "format_currency v =
     (if \<not> truthy v then Inr DEFAULT_VALUE
      else
        (case py_int v of
           Inr num \<Rightarrow> Inr (str_replace_char CHR '','' CHR '' '' (format_comma num) @ CURRENCY_SUFFIX)
         | Inl e \<Rightarrow> if e = ValueError \<or> e = TypeError then Inr (py_str v) else Inl e))"

definition format_number :: "pyval \<Rightarrow> py_error + string" where
  "format_number v =
     (if \<not> truthy v then Inr DEFAULT_VALUE
      else
        (case py_int v of
           Inr num \<Rightarrow> Inr (str_int num @ NUMBER_SUFFIX)
         | Inl e \<Rightarrow> if e = ValueError \<or> e = TypeError then Inr (py_str v) else Inl e))"

text \<open>
  \<^verbatim>\<open>get_relationship_name\<close> has no raising path: the index \<^verbatim>\<open>[0]\<close> is guarded by the
  length test and every \<^verbatim>\<open>.get\<close> by an \<^verbatim>\<open>isinstance\<close> test. It returns whatever
  \<^verbatim>\<open>.get("name", DEFAULT_VALUE)\<close> returns, so its result is a value, not always a string.
\<close>

definition get_relationship_name :: "pyval \<Rightarrow> pyval" where
  "get_relationship_name v =
     (if \<not> truthy v then PStr DEFAULT_VALUE
      else
        (case v of
           PList xs \<Rightarrow>
             (case xs of
                first_item # _ \<Rightarrow>
                  (case first_item of
                     PDict d \<Rightarrow> dict_get d ''name'' (PStr DEFAULT_VALUE)
                   | _ \<Rightarrow> PStr (py_str first_item))
              | [] \<Rightarrow> PStr DEFAULT_VALUE)
         | PDict d \<Rightarrow> dict_get d ''name'' (PStr DEFAULT_VALUE)
         | _ \<Rightarrow> PStr (py_str v)))"

text \<open>
  \<^verbatim>\<open>format_deadline\<close>. \<^verbatim>\<open>int(deadline) / 1000\<close> is a true division of an integer, which
  raises \<^verbatim>\<open>OverflowError\<close> when the correctly rounded quotient is not a finite double,
  that is when its magnitude reaches \<open>2 ^ 1024 - 2 ^ 970\<close>. The conversion
  \<^verbatim>\<open>datetime.fromtimestamp(timestamp).strftime(DATE_FORMAT)\<close> depends on the platform and
  its local time zone: it is the parameter \<open>fromtimestamp\<close>, a function of the
  millisecond count that returns the date string or the exception raised. The handler
  catches \<^verbatim>\<open>ValueError\<close>, \<^verbatim>\<open>TypeError\<close> and \<^verbatim>\<open>OSError\<close>.
\<close>

definition true_div_overflows :: "int \<Rightarrow> int \<Rightarrow> bool" where
  "true_div_overflows n d = (\<bar>n\<bar> \<ge> \<bar>d\<bar> * (2 ^ 1024 - 2 ^ 970))"

definition is_int_or_str :: "pyval \<Rightarrow> bool" where
  "is_int_or_str v = (case v of PInt _ \<Rightarrow> True | PBool _ \<Rightarrow> True | PStr _ \<Rightarrow> True | _ \<Rightarrow> False)"

definition format_deadline :: "(int \<Rightarrow> py_error + string) \<Rightarrow> pyval \<Rightarrow> py_error + string" where
  "format_deadline fromtimestamp deadline =
     (if \<not> truthy deadline then Inr DEFAULT_VALUE
      else
        (case
           (if is_int_or_str deadline then
              (case py_int deadline of
                 Inl e \<Rightarrow> Inl e
               | Inr n \<Rightarrow>
                   if true_div_overflows n MILLISECONDS_TO_SECONDS then Inl OverflowError
                   else fromtimestamp n)
            else Inr (py_str deadline))
         of
           Inr s \<Rightarrow> Inr s
         | Inl e \<Rightarrow>
             if e = ValueError \<or> e = TypeError \<or> e = OSError then Inr (py_str deadline)
             else Inl e))"

section \<open>Webhook events\<close>

text \<open>
  Modelled from the spec: the class \<^verbatim>\<open>WebhookEvent\<close> lives in
  \<^verbatim>\<open>clickup_sdk/webhook/events.py\<close>, which is not among the sources. The specification
  gives it the event type tag \<^verbatim>\<open>event\<close>, the identifier \<^verbatim>\<open>task_id\<close> and
  \<^verbatim>\<open>history_items\<close>, an ordered sequence of change records, each a loosely typed
  mapping, which may be absent. An absent sequence is \<open>None\<close>.
\<close>

record WebhookEvent =
  event :: string
  task_id :: string
  history_items :: "pydict list option"

text \<open>
  The loop \<^verbatim>\<open>for item in event.history_items\<close> of the filters: the body either returns
  \<^verbatim>\<open>True\<close> from \<^verbatim>\<open>check\<close> (\<open>Inr True\<close>), goes on with the next item (\<open>Inr False\<close>) or
  raises; after the last item \<^verbatim>\<open>check\<close> returns \<^verbatim>\<open>False\<close>.
\<close>

fun for_items :: "(pydict \<Rightarrow> py_error + bool) \<Rightarrow> pydict list \<Rightarrow> py_error + bool" where
  "for_items body [] = Inr False"
| "for_items body (item # items) =
     (case body item of
        Inl e \<Rightarrow> Inl e
      | Inr True \<Rightarrow> Inr True
      | Inr False \<Rightarrow> for_items body items)"

section \<open>Filters (\<^verbatim>\<open>filters.py\<close>)\<close>

subsection \<open>\<^verbatim>\<open>CustomFieldFilter\<close>\<close>

record CustomFieldFilter =
  field_id :: "string option"
  field_name :: "string option"

definition CustomFieldFilter_init ::
  "string option \<Rightarrow> string option \<Rightarrow> py_error + CustomFieldFilter" where
  "CustomFieldFilter_init fid fname =
     (if \<not> truthy_opt fid \<and> \<not> truthy_opt fname then Inl ValueError
      else Inr \<lparr>field_id = fid, field_name = fname\<rparr>)"

text \<open>
  \<^verbatim>\<open>after.get("id") == self.field_id or after.get("field_id") == self.field_id\<close> under
  \<^verbatim>\<open>isinstance(after, dict)\<close>; \<^verbatim>\<open>self.field_id\<close> is a string, and \<^verbatim>\<open>==\<close> between a
  string and a value holds only for the same string.
\<close>

definition nested_id_match :: "pyval \<Rightarrow> string \<Rightarrow> bool" where
  "nested_id_match a sid =
     (case a of
        PDict d \<Rightarrow> dict_get d ''id'' PNone = PStr sid \<or> dict_get d ''field_id'' PNone = PStr sid
      | _ \<Rightarrow> False)"

text \<open>The block \<^verbatim>\<open>if self.field_id:\<close> of the loop body, for \<^verbatim>\<open>self.field_id = sid\<close>.\<close>

definition check_by_id :: "string \<Rightarrow> pydict \<Rightarrow> bool" where
  "check_by_id sid item =
     (let field = dict_get item ''field'' (PStr []);
          fid = py_or (dict_get item ''field_id'' PNone) (dict_get item ''id'' PNone)
      in
        if truthy fid \<and> py_str fid = sid then True
        else if truthy field \<and> str_contains sid (py_str field) then True
        else
          (let after = dict_get item ''after'' (PDict []);
               before = dict_get item ''before'' (PDict [])
           in if nested_id_match after sid then True
              else if nested_id_match before sid then True
              else False))"

text \<open>
  \<^verbatim>\<open>a.get("name") and self.field_name.lower() in a.get("name", "").lower()\<close> under
  \<^verbatim>\<open>isinstance(a, dict)\<close>: a truthy name that is not a string has no \<^verbatim>\<open>lower\<close>.
\<close>

definition nested_name_match :: "pyval \<Rightarrow> string \<Rightarrow> py_error + bool" where
  "nested_name_match a fname =
     (case a of
        PDict d \<Rightarrow>
          if truthy (dict_get d ''name'' PNone) then
            (case py_lower (dict_get d ''name'' (PStr [])) of
               Inl e \<Rightarrow> Inl e
             | Inr l \<Rightarrow> Inr (str_contains (str_lower fname) l))
          else Inr False
      | _ \<Rightarrow> Inr False)"

text \<open>The block \<^verbatim>\<open>if self.field_name:\<close> of the loop body, for \<^verbatim>\<open>self.field_name = fname\<close>.\<close>

definition check_by_name :: "string \<Rightarrow> pydict \<Rightarrow> py_error + bool" where
  "check_by_name fname item =
     (let field = dict_get item ''field'' (PStr []);
          after = dict_get item ''after'' (PDict []);
          before = dict_get item ''before'' (PDict []);
          nested =
            (case nested_name_match after fname of
               Inl e \<Rightarrow> Inl e
             | Inr True \<Rightarrow> Inr True
             | Inr False \<Rightarrow> nested_name_match before fname)
      in
        if truthy field then
          (case py_lower field of
             Inl e \<Rightarrow> Inl e
           | Inr l \<Rightarrow> if str_contains (str_lower fname) l then Inr True else nested)
        else nested)"

definition CustomFieldFilter_item :: "CustomFieldFilter \<Rightarrow> pydict \<Rightarrow> py_error + bool" where
  "CustomFieldFilter_item f item =
     (if (case field_id f of None \<Rightarrow> False | Some sid \<Rightarrow> sid \<noteq> [] \<and> check_by_id sid item)
      then Inr True
      else
        (case field_name f of
           None \<Rightarrow> Inr False
         | Some fname \<Rightarrow> if fname \<noteq> [] then check_by_name fname item else Inr False))"

definition CustomFieldFilter_check :: "CustomFieldFilter \<Rightarrow> WebhookEvent \<Rightarrow> py_error + bool" where
  "CustomFieldFilter_check f ev =
     (if event ev \<noteq> ''taskUpdated'' then Inr False
      else
        (case history_items ev of
           None \<Rightarrow> Inr False
         | Some items \<Rightarrow>
             if items = [] then Inr False else for_items (CustomFieldFilter_item f) items))"

subsection \<open>\<^verbatim>\<open>TaskStatusFilter\<close>\<close>

record TaskStatusFilter =
  from_status :: "string option"
  to_status :: "string option"

text \<open>
  \<^verbatim>\<open>b.get("status", {}).get("status", "") if isinstance(b, dict) else ""\<close>: only the outer
  value is tested with \<^verbatim>\<open>isinstance\<close>; the value under the outer \<^verbatim>\<open>"status"\<close> key
  receives \<^verbatim>\<open>.get\<close> whatever it is, and only a dictionary has that method.
\<close>

definition nested_status :: "pyval \<Rightarrow> py_error + pyval" where
  "nested_status b =
     (case b of
        PDict d \<Rightarrow>
          (case dict_get d ''status'' (PDict []) of
             PDict d2 \<Rightarrow> Inr (dict_get d2 ''status'' (PStr []))
           | _ \<Rightarrow> Inl AttributeError)
      | _ \<Rightarrow> Inr (PStr []))"

text \<open>\<^verbatim>\<open>self.c and st.lower() != self.c.lower()\<close> for a constraint \<open>c\<close>.\<close>

definition status_differs :: "string option \<Rightarrow> pyval \<Rightarrow> py_error + bool" where
  "status_differs c st =
     (case c of
        None \<Rightarrow> Inr False
      | Some s \<Rightarrow>
          if s = [] then Inr False
          else (case py_lower st of Inl e \<Rightarrow> Inl e | Inr l \<Rightarrow> Inr (l \<noteq> str_lower s)))"

definition TaskStatusFilter_item :: "TaskStatusFilter \<Rightarrow> pydict \<Rightarrow> py_error + bool" where
  "TaskStatusFilter_item f item =
     (let before = dict_get item ''before'' (PDict []);
          after = dict_get item ''after'' (PDict [])
      in
        case nested_status before of
          Inl e \<Rightarrow> Inl e
        | Inr old_status \<Rightarrow>
            (case nested_status after of
               Inl e \<Rightarrow> Inl e
             | Inr new_status \<Rightarrow>
                 (case status_differs (from_status f) old_status of
                    Inl e \<Rightarrow> Inl e
                  | Inr True \<Rightarrow> Inr False
                  | Inr False \<Rightarrow>
                      (case status_differs (to_status f) new_status of
                         Inl e \<Rightarrow> Inl e
                       | Inr True \<Rightarrow> Inr False
                       | Inr False \<Rightarrow> Inr True))))"

definition TaskStatusFilter_check :: "TaskStatusFilter \<Rightarrow> WebhookEvent \<Rightarrow> py_error + bool" where
  "TaskStatusFilter_check f ev =
     (if event ev \<noteq> ''taskStatusUpdated'' then Inr False
      else
        (case history_items ev of
           None \<Rightarrow> Inr False
         | Some items \<Rightarrow>
             if items = [] then Inr False else for_items (TaskStatusFilter_item f) items))"

subsection \<open>\<^verbatim>\<open>TaskAssigneeFilter\<close>\<close>

record TaskAssigneeFilter =
  user_id :: "string option"

definition assignee_matches :: "string \<Rightarrow> pyval \<Rightarrow> bool" where
  "assignee_matches uid a =
     ((case a of PDict d \<Rightarrow> dict_get d ''id'' PNone = PStr uid | _ \<Rightarrow> False) \<or> a = PStr uid)"

definition TaskAssigneeFilter_item :: "string \<Rightarrow> pydict \<Rightarrow> py_error + bool" where
  "TaskAssigneeFilter_item uid item =
     (case dict_get item ''after'' (PDict []) of
        PDict d \<Rightarrow>
          (case dict_get d ''assignees'' (PList []) of
             PList assignees \<Rightarrow> Inr (list_ex (assignee_matches uid) assignees)
           | _ \<Rightarrow> Inr False)
      | _ \<Rightarrow> Inr False)"

definition TaskAssigneeFilter_check :: "TaskAssigneeFilter \<Rightarrow> WebhookEvent \<Rightarrow> py_error + bool" where
  "TaskAssigneeFilter_check f ev =
     (if event ev \<noteq> ''taskAssigneeUpdated'' then Inr False
      else
        (case user_id f of
           None \<Rightarrow> Inr True
         | Some uid \<Rightarrow>
             if uid = [] then Inr True
             else
               (case history_items ev of
                  None \<Rightarrow> Inr False
                | Some items \<Rightarrow>
                    if items = [] then Inr False
                    else for_items (TaskAssigneeFilter_item uid) items)))"

subsection \<open>\<^verbatim>\<open>EventTypeFilter\<close>\<close>

record EventTypeFilter =
  event_types :: "string list"

definition EventTypeFilter_init :: "string list \<Rightarrow> EventTypeFilter" where
  "EventTypeFilter_init types = \<lparr>event_types = map str_lower types\<rparr>"

definition EventTypeFilter_check :: "EventTypeFilter \<Rightarrow> WebhookEvent \<Rightarrow> py_error + bool" where
  "EventTypeFilter_check f ev = Inr (str_lower (event ev) \<in> set (event_types f))"

subsection \<open>\<^verbatim>\<open>CombinedFilter\<close>\<close>

text \<open>
  A child filter is any object with a \<^verbatim>\<open>check\<close> method, that is a function from the event
  to a boolean or an exception. The \<^verbatim>\<open>await\<close> of a child's \<^verbatim>\<open>check\<close> is a plain call: no
  filter suspends.
\<close>

record CombinedFilter =
  filters :: "(WebhookEvent \<Rightarrow> py_error + bool) list"
  logic :: string

definition CombinedFilter_init ::
  "(WebhookEvent \<Rightarrow> py_error + bool) list \<Rightarrow> string \<Rightarrow> py_error + CombinedFilter" where
  "CombinedFilter_init fs l =
     (if str_upper l \<notin> set [''AND'', ''OR''] then Inl ValueError
      else Inr \<lparr>filters = fs, logic = str_upper l\<rparr>)"

text \<open>The loop that collects \<^verbatim>\<open>results\<close>: every child is called, in order.\<close>

fun collect_results ::
  "(WebhookEvent \<Rightarrow> py_error + bool) list \<Rightarrow> WebhookEvent \<Rightarrow> py_error + bool list" where
  "collect_results [] ev = Inr []"
| "collect_results (filter_obj # rest) ev =
     (case filter_obj ev of
        Inl e \<Rightarrow> Inl e
      | Inr result \<Rightarrow>
          (case collect_results rest ev of
             Inl e \<Rightarrow> Inl e
           | Inr results \<Rightarrow> Inr (result # results)))"

definition CombinedFilter_check :: "CombinedFilter \<Rightarrow> WebhookEvent \<Rightarrow> py_error + bool" where
  "CombinedFilter_check f ev =
     (if filters f = [] then Inr True
      else
        (case collect_results (filters f) ev of
           Inl e \<Rightarrow> Inl e
         | Inr results \<Rightarrow>
             if logic f = ''AND'' then Inr (list_all id results)
             else Inr (list_ex id results)))"

section \<open>The specification's wording\<close>

text \<open>
  Space-separated thousands grouping as the specification words it: the digits of the
  magnitude, with a space before every complete group of three digits counted from the
  right, after the sign.
\<close>

function thousands_spaced :: "nat \<Rightarrow> string" where
  "thousands_spaced n =
     (if n < 1000 then digits n
      else thousands_spaced (n div 1000) @
           [CHR '' '', digit_char (n div 100 mod 10), digit_char (n div 10 mod 10), digit_char (n mod 10)])"
  by pat_completeness auto
termination
  by (relation "measure id") auto

declare thousands_spaced.simps [simp del]

definition spaced_int :: "int \<Rightarrow> string" where
  "spaced_int n = (if n < 0 then CHR ''-'' # thousands_spaced (nat (- n)) else thousands_spaced (nat n))"

text \<open>
  The match strategies of the field filter as the specification lists them, each a predicate
  on one history item: (1) the item's \<^verbatim>\<open>field_id\<close>, or its \<^verbatim>\<open>id\<close> when there is no
  \<^verbatim>\<open>field_id\<close>, equals the filter's id after string coercion; (2) the field label
  contains the id; (3) the \<^verbatim>\<open>id\<close> or \<^verbatim>\<open>field_id\<close> attribute of the nested \<^verbatim>\<open>after\<close> or
  \<^verbatim>\<open>before\<close> mapping equals the id; (4) the field label contains the name, ignoring case;
  (5) the \<^verbatim>\<open>name\<close> attribute of the nested \<^verbatim>\<open>after\<close> or \<^verbatim>\<open>before\<close> mapping contains the
  name, ignoring case.
\<close>

definition contains_ignoring_case :: "string \<Rightarrow> pyval \<Rightarrow> bool" where
  "contains_ignoring_case name v =
     (case v of PStr s \<Rightarrow> str_contains (str_lower name) (str_lower s) | _ \<Rightarrow> False)"

definition nested_attribute :: "pydict \<Rightarrow> string \<Rightarrow> string \<Rightarrow> pyval" where
  "nested_attribute item side attr =
     (case dict_get item side (PDict []) of PDict d \<Rightarrow> dict_get d attr PNone | _ \<Rightarrow> PNone)"

definition strategy_1 :: "string \<Rightarrow> pydict \<Rightarrow> bool" where
  "strategy_1 sid item =
     (let fid = py_or (dict_get item ''field_id'' PNone) (dict_get item ''id'' PNone)
      in truthy fid \<and> py_str fid = sid)"

definition strategy_2 :: "string \<Rightarrow> pydict \<Rightarrow> bool" where
  "strategy_2 sid item =
     (truthy (dict_get item ''field'' (PStr [])) \<and>
      str_contains sid (py_str (dict_get item ''field'' (PStr []))))"

definition strategy_3 :: "string \<Rightarrow> pydict \<Rightarrow> bool" where
  "strategy_3 sid item =
     (nested_attribute item ''after'' ''id'' = PStr sid \<or>
      nested_attribute item ''after'' ''field_id'' = PStr sid \<or>
      nested_attribute item ''before'' ''id'' = PStr sid \<or>
      nested_attribute item ''before'' ''field_id'' = PStr sid)"

definition strategy_4 :: "string \<Rightarrow> pydict \<Rightarrow> bool" where
  "strategy_4 name item = contains_ignoring_case name (dict_get item ''field'' (PStr []))"

definition strategy_5 :: "string \<Rightarrow> pydict \<Rightarrow> bool" where
  "strategy_5 name item =
     (contains_ignoring_case name (nested_attribute item ''after'' ''name'') \<or>
      contains_ignoring_case name (nested_attribute item ''before'' ''name''))"

definition item_matches :: "CustomFieldFilter \<Rightarrow> pydict \<Rightarrow> bool" where
  "item_matches f item =
     ((case field_id f of
         None \<Rightarrow> False
       | Some sid \<Rightarrow> sid \<noteq> [] \<and> (strategy_1 sid item \<or> strategy_2 sid item \<or> strategy_3 sid item)) \<or>
      (case field_name f of
         None \<Rightarrow> False
       | Some name \<Rightarrow> name \<noteq> [] \<and> (strategy_4 name item \<or> strategy_5 name item)))"

text \<open>
  The status transition of one history item as the specification words it: the status text
  under \<^verbatim>\<open>before.status.status\<close> and \<^verbatim>\<open>after.status.status\<close> equals the constraint,
  ignoring case, for each constraint that is set.
\<close>

definition constraint_holds :: "string option \<Rightarrow> pyval \<Rightarrow> bool" where
  "constraint_holds c st =
     (case c of
        None \<Rightarrow> True
      | Some s \<Rightarrow> s = [] \<or> (case st of PStr t \<Rightarrow> str_lower t = str_lower s | _ \<Rightarrow> False))"

definition status_text :: "pydict \<Rightarrow> string \<Rightarrow> pyval" where
  "status_text item side =
     (case dict_get item side (PDict []) of
        PDict d \<Rightarrow>
          (case dict_get d ''status'' (PDict []) of
             PDict d2 \<Rightarrow> dict_get d2 ''status'' (PStr [])
           | _ \<Rightarrow> PStr [])
      | _ \<Rightarrow> PStr [])"

definition transition_matches :: "TaskStatusFilter \<Rightarrow> pydict \<Rightarrow> bool" where
  "transition_matches f item =
     (constraint_holds (from_status f) (status_text item ''before'') \<and>
      constraint_holds (to_status f) (status_text item ''after''))"

section \<open>Properties\<close>

subsection \<open>Decimal digits and thousands grouping\<close>

lemmas char_eval = char_of_def bit_0

lemma digits_not_Nil: "digits n \<noteq> []"
  by (subst digits.simps) simp















subsection \<open>The formatters\<close>





lemma spaced_int_example: "spaced_int 1234567 = ''1 234 567''"
  by (simp add: spaced_int_def thousands_spaced.simps digits.simps digit_char_def char_eval)



text \<open>
  Claim C10. \<^verbatim>\<open>get_relationship_name\<close> of a mapping, or of a list whose first element is
  a mapping, is the sentinel \<^verbatim>\<open>"N/A"\<close> exactly when the mapping has no \<^verbatim>\<open>"name"\<close> key, and
  otherwise the value stored under that key, unchanged, whatever it is; for
  \<^verbatim>\<open>[{"name": None}]\<close> the result is \<^verbatim>\<open>None\<close>, not a string.
\<close>

theorem get_relationship_name_present_or_absent:
  "get_relationship_name (PDict d) =
     (case map_of d ''name'' of None \<Rightarrow> PStr ''N/A'' | Some x \<Rightarrow> x) \<and>
   get_relationship_name (PList (PDict d # rest)) =
     (case map_of d ''name'' of None \<Rightarrow> PStr ''N/A'' | Some x \<Rightarrow> x) \<and>
   get_relationship_name (PList [PDict [(''name'', PNone)]]) = PNone"
  by (cases d) (simp_all add: get_relationship_name_def dict_get_def DEFAULT_VALUE_def)

lemma py_int_errors:
  "py_int v = Inl e \<Longrightarrow> e = ValueError \<or> e = TypeError \<or> e = OverflowError"
  by (cases v) (auto simp: int_of_str_def split: list.splits option.splits if_splits
        elim: int_of_float.elims)

lemma py_int_OverflowError:
  "py_int v = Inl OverflowError \<longleftrightarrow> (\<exists>negative. v = PFloat (Infinite negative))"
proof (cases v)
  case (PFloat x)
  then show ?thesis by (cases x) simp_all
next
  case (PStr s)
  then show ?thesis
    by (auto simp: int_of_str_def split: list.splits option.splits if_splits)
qed simp_all

lemma format_currency_raises:
  "format_currency v = Inl e \<longleftrightarrow> e = OverflowError \<and> (\<exists>negative. v = PFloat (Infinite negative))"
proof (cases "py_int v")
  case (Inr n)
  then have "\<not> (\<exists>negative. v = PFloat (Infinite negative))" by auto
  with Inr show ?thesis by (simp add: format_currency_def)
next
  case (Inl e')
  show ?thesis
  proof (cases "e' = OverflowError")
    case True
    with Inl obtain negative where "v = PFloat (Infinite negative)"
      using py_int_OverflowError [of v] by auto
    with Inl True show ?thesis by (auto simp: format_currency_def)
  next
    case False
    with Inl have "e' = ValueError \<or> e' = TypeError" using py_int_errors [of v e'] by simp
    moreover from Inl False have "\<not> (\<exists>negative. v = PFloat (Infinite negative))" by auto
    ultimately show ?thesis using Inl by (auto simp: format_currency_def)
  qed
qed

lemma format_number_raises:
  "format_number v = Inl e \<longleftrightarrow> e = OverflowError \<and> (\<exists>negative. v = PFloat (Infinite negative))"
proof (cases "py_int v")
  case (Inr n)
  then have "\<not> (\<exists>negative. v = PFloat (Infinite negative))" by auto
  with Inr show ?thesis by (simp add: format_number_def)
next
  case (Inl e')
  show ?thesis
  proof (cases "e' = OverflowError")
    case True
    with Inl obtain negative where "v = PFloat (Infinite negative)"
      using py_int_OverflowError [of v] by auto
    with Inl True show ?thesis by (auto simp: format_number_def)
  next
    case False
    with Inl have "e' = ValueError \<or> e' = TypeError" using py_int_errors [of v e'] by simp
    moreover from Inl False have "\<not> (\<exists>negative. v = PFloat (Infinite negative))" by auto
    ultimately show ?thesis using Inl by (auto simp: format_number_def)
  qed
qed

lemma format_currency_nan: "format_currency (PFloat NaN) = Inr ''nan''"
  by (simp add: format_currency_def py_str_def)

lemma format_currency_too_many_digits:
  "length (filter is_digit s) > 4300 \<Longrightarrow> format_currency (PStr s) = Inr s"
  by (cases s) (auto simp: format_currency_def int_of_str_def MAX_STR_DIGITS_def py_str_def)

lemma format_currency_control_character:
  "format_currency (PStr [CHR 0x1C, CHR ''1'', CHR ''2'', CHR ''3'', CHR ''4'']) =
     Inr [CHR 0x1C, CHR ''1'', CHR ''2'', CHR ''3'', CHR ''4'']"
  by (simp add: format_currency_def int_of_str_def str_strip_def is_space_def parse_nat_def
        is_digit_def MAX_STR_DIGITS_def py_str_def)

lemma format_number_not_a_number: "format_number (PStr ''abc'') = Inr ''abc''"
  by (simp add: format_number_def int_of_str_def str_strip_def is_space_def parse_nat_def
        is_digit_def py_str_def)

lemma format_deadline_not_a_number:
  "format_deadline fromtimestamp (PStr ''not-a-number'') = Inr ''not-a-number''"
  by (simp add: format_deadline_def is_int_or_str_def int_of_str_def str_strip_def is_space_def
        parse_nat_def is_digit_def py_str_def)

text \<open>
  Claim C7 says that the formatters never raise. \<^verbatim>\<open>format_deadline\<close> does: for the
  integer \<open>10 ^ 400\<close> the true division \<^verbatim>\<open>int(deadline) / 1000\<close> raises \<^verbatim>\<open>OverflowError\<close>,
  which the handler for \<^verbatim>\<open>ValueError\<close>, \<^verbatim>\<open>TypeError\<close> and \<^verbatim>\<open>OSError\<close> does not catch,
  whatever the date conversion of the platform does.
\<close>

theorem format_deadline_raises_OverflowError:
  "format_deadline fromtimestamp (PInt (10 ^ 400)) = Inl OverflowError"
  by (simp add: format_deadline_def is_int_or_str_def true_div_overflows_def
        MILLISECONDS_TO_SECONDS_def)

lemma format_deadline_raises_only_OverflowError:
  assumes "\<And>n e. fromtimestamp n = Inl e \<Longrightarrow> e \<in> {ValueError, OSError, OverflowError}"
    and "format_deadline fromtimestamp v = Inl e"
  shows "e = OverflowError"
  using assms(2)
  by (auto simp: format_deadline_def split: if_splits sum.splits dest: py_int_errors assms(1))

subsection \<open>The loop over the history items\<close>

lemma for_items_no_error:
  "\<forall>x\<in>set xs. \<exists>b. body x = Inr b \<Longrightarrow> for_items body xs = Inr (\<exists>x\<in>set xs. body x = Inr True)"
  by (induction xs) (auto split: sum.splits bool.splits)

lemma for_items_error:
  "for_items body xs = Inl e \<Longrightarrow> \<exists>x\<in>set xs. body x = Inl e"
  by (induction xs) (auto split: sum.splits bool.splits)

lemma for_items_True:
  "for_items body xs = Inr True \<Longrightarrow> \<exists>x\<in>set xs. body x = Inr True"
  by (induction xs) (auto split: sum.splits bool.splits)

subsection \<open>TaskStatusFilter\<close>

lemma nested_status_guarded:
  "(\<forall>d. b \<noteq> PDict d) \<Longrightarrow> nested_status b = Inr (PStr [])"
  "map_of d ''status'' = None \<Longrightarrow> nested_status (PDict d) = Inr (PStr [])"
  "map_of d ''status'' = Some (PDict d2) \<Longrightarrow> map_of d2 ''status'' = None \<Longrightarrow>
     nested_status (PDict d) = Inr (PStr [])"
  by (cases b; simp add: nested_status_def dict_get_def)
     (simp_all add: nested_status_def dict_get_def)

lemma nested_status_raises:
  "map_of d ''status'' = Some v \<Longrightarrow> (\<forall>d2. v \<noteq> PDict d2) \<Longrightarrow>
     nested_status (PDict d) = Inl AttributeError"
  by (cases v) (simp_all add: nested_status_def dict_get_def)

lemma TaskStatusFilter_check_non_string_status_raises:
  "TaskStatusFilter_check \<lparr>from_status = None, to_status = Some ''complete''\<rparr>
     \<lparr>event = ''taskStatusUpdated'', task_id = ''t1'',
      history_items = Some [[(''after'', PDict [(''status'', PDict [(''status'', PNone)])])]]\<rparr>
   = Inl AttributeError"
  by (simp add: TaskStatusFilter_check_def TaskStatusFilter_item_def nested_status_def dict_get_def
        status_differs_def)

lemma TaskStatusFilter_check_nested_example:
  "TaskStatusFilter_check \<lparr>from_status = None, to_status = Some ''complete''\<rparr>
     \<lparr>event = ''taskStatusUpdated'', task_id = ''t1'',
      history_items = Some [[(''after'', PDict [(''status'', PDict [(''status'', PStr ''Complete'')])])]]\<rparr>
   = Inr True"
  "TaskStatusFilter_check \<lparr>from_status = None, to_status = Some ''complete''\<rparr>
     \<lparr>event = ''taskStatusUpdated'', task_id = ''t1'',
      history_items = Some [[(''after'', PDict [(''status'', PDict [(''status'', PStr ''Open'')])])]]\<rparr>
   = Inr False"
  by (simp_all add: TaskStatusFilter_check_def TaskStatusFilter_item_def nested_status_def dict_get_def
        status_differs_def str_lower_def lower_char_def char_eval)

subsection \<open>CustomFieldFilter\<close>

lemma str_int_not_Nil: "str_int n \<noteq> []"
  by (simp add: str_int_def digits_not_Nil)

lemma CustomFieldFilter_check_spec_example:
  "CustomFieldFilter_check \<lparr>field_id = Some ''X'', field_name = None\<rparr>
     \<lparr>event = ''taskUpdated'', task_id = ''t1'',
      history_items = Some [[(''field_id'', PStr ''X''), (''field'', PStr ''desc'')]]\<rparr>
   = Inr True"
  "CustomFieldFilter_check \<lparr>field_id = Some ''X'', field_name = None\<rparr>
     \<lparr>event = ''taskCreated'', task_id = ''t1'', history_items = h\<rparr>
   = Inr False"
  by (simp_all add: CustomFieldFilter_check_def CustomFieldFilter_item_def check_by_id_def
        dict_get_def py_or_def py_str_def)

lemma CustomFieldFilter_item_errors:
  "CustomFieldFilter_item f item = Inl e \<Longrightarrow> e = AttributeError"
  by (auto simp: CustomFieldFilter_item_def check_by_name_def nested_name_match_def Let_def
        split: if_splits option.splits sum.splits bool.splits pyval.splits
        elim!: py_lower.elims)

lemma CustomFieldFilter_check_errors:
  "CustomFieldFilter_check f ev = Inl e \<Longrightarrow> e = AttributeError"
  by (auto simp: CustomFieldFilter_check_def split: if_splits option.splits
        dest!: for_items_error CustomFieldFilter_item_errors)





subsection \<open>Short circuit on a missing or empty history\<close>

text \<open>
  Claim C5. When \<^verbatim>\<open>history_items\<close> is absent or empty, \<^verbatim>\<open>check\<close> of a
  \<^verbatim>\<open>CustomFieldFilter\<close>, of a \<^verbatim>\<open>TaskStatusFilter\<close> and of a \<^verbatim>\<open>TaskAssigneeFilter\<close> built
  with a (non-empty) user id returns \<^verbatim>\<open>False\<close>; it does not raise.
\<close>

theorem history_required_filters_no_match_without_history:
  "history_items ev = None \<or> history_items ev = Some [] \<Longrightarrow>
   CustomFieldFilter_check f ev = Inr False \<and>
   TaskStatusFilter_check g ev = Inr False \<and>
   (truthy_opt (user_id h) \<longrightarrow> TaskAssigneeFilter_check h ev = Inr False)"
  by (cases "user_id h")
     (auto simp: CustomFieldFilter_check_def TaskStatusFilter_check_def TaskAssigneeFilter_check_def)

text \<open>
  Claim C5, witness: the theorem at an event of each filter's own type, with an absent and
  with an empty history.
\<close>

theorem history_required_filters_no_match_without_history_witness:
  "CustomFieldFilter_check \<lparr>field_id = Some ''X'', field_name = None\<rparr>
     \<lparr>event = ''taskUpdated'', task_id = ''t1'', history_items = None\<rparr> = Inr False \<and>
   TaskStatusFilter_check \<lparr>from_status = None, to_status = None\<rparr>
     \<lparr>event = ''taskStatusUpdated'', task_id = ''t1'', history_items = Some []\<rparr> = Inr False \<and>
   truthy_opt (user_id \<lparr>user_id = Some ''u1''\<rparr>) \<and>
   TaskAssigneeFilter_check \<lparr>user_id = Some ''u1''\<rparr>
     \<lparr>event = ''taskAssigneeUpdated'', task_id = ''t1'', history_items = Some []\<rparr> = Inr False"
  using
    history_required_filters_no_match_without_history
      [of "\<lparr>event = ''taskUpdated'', task_id = ''t1'', history_items = None\<rparr>"
          "\<lparr>field_id = Some ''X'', field_name = None\<rparr>"
          "\<lparr>from_status = None, to_status = None\<rparr>" "\<lparr>user_id = Some ''u1''\<rparr>"]
    history_required_filters_no_match_without_history
      [of "\<lparr>event = ''taskStatusUpdated'', task_id = ''t1'', history_items = Some []\<rparr>"
          "\<lparr>field_id = Some ''X'', field_name = None\<rparr>"
          "\<lparr>from_status = None, to_status = None\<rparr>" "\<lparr>user_id = Some ''u1''\<rparr>"]
    history_required_filters_no_match_without_history
      [of "\<lparr>event = ''taskAssigneeUpdated'', task_id = ''t1'', history_items = Some []\<rparr>"
          "\<lparr>field_id = Some ''X'', field_name = None\<rparr>"
          "\<lparr>from_status = None, to_status = None\<rparr>" "\<lparr>user_id = Some ''u1''\<rparr>"]
  by simp

lemma TaskAssigneeFilter_check_without_user_id:
  "\<not> truthy_opt (user_id h) \<Longrightarrow> event ev = ''taskAssigneeUpdated'' \<Longrightarrow>
   TaskAssigneeFilter_check h ev = Inr True"
  by (cases "user_id h") (auto simp: TaskAssigneeFilter_check_def)

subsection \<open>CombinedFilter\<close>

lemma collect_results_Inl:
  "(\<exists>e. collect_results fs ev = Inl e) \<longleftrightarrow> (\<exists>c\<in>set fs. \<exists>e. c ev = Inl e)"
  by (induction fs) (auto split: sum.splits)

lemma collect_results_all:
  "collect_results fs ev = Inr rs \<Longrightarrow> list_all id rs \<longleftrightarrow> (\<forall>c\<in>set fs. c ev = Inr True)"
  by (induction fs arbitrary: rs) (auto split: sum.splits)

lemma collect_results_ex:
  "collect_results fs ev = Inr rs \<Longrightarrow> list_ex id rs \<longleftrightarrow> (\<exists>c\<in>set fs. c ev = Inr True)"
  by (induction fs arbitrary: rs) (auto split: sum.splits)

lemma collect_results_returns:
  "collect_results fs ev = Inr rs \<Longrightarrow> \<forall>c\<in>set fs. \<exists>b. c ev = Inr b"
  by (induction fs arbitrary: rs) (auto split: sum.splits)

lemma collect_results_total:
  "\<forall>c\<in>set fs. \<exists>b. c ev = Inr b \<Longrightarrow> \<exists>rs. collect_results fs ev = Inr rs"
  by (induction fs) (auto split: sum.splits)

lemma collect_results_raises:
  assumes "collect_results fs ev = Inl e"
  shows "fs \<noteq> []" and "\<not> (\<forall>c\<in>set fs. c ev = Inr True)" and "\<not> (\<forall>c\<in>set fs. \<exists>b. c ev = Inr b)"
proof -
  show "fs \<noteq> []" using assms by auto
  from assms have "\<exists>c\<in>set fs. \<exists>e. c ev = Inl e"
    using collect_results_Inl [of fs ev] by blast
  then obtain c e' where c: "c \<in> set fs" "c ev = Inl e'" by blast
  then have "c ev \<noteq> Inr True" and "\<forall>b. c ev \<noteq> Inr b" by simp_all
  with c(1) show "\<not> (\<forall>c\<in>set fs. c ev = Inr True)" and "\<not> (\<forall>c\<in>set fs. \<exists>b. c ev = Inr b)"
    by blast+
qed

lemma CombinedFilter_check_AND:
  assumes "logic f = ''AND''"
  shows "CombinedFilter_check f ev = Inr True \<longleftrightarrow> (\<forall>c\<in>set (filters f). c ev = Inr True)"
proof (cases "collect_results (filters f) ev")
  case (Inl e)
  from collect_results_raises [OF Inl] Inl show ?thesis
    by (simp add: CombinedFilter_check_def)
next
  case (Inr rs)
  from collect_results_all [OF Inr] Inr assms show ?thesis
    by (simp add: CombinedFilter_check_def)
qed

lemma CombinedFilter_check_OR:
  assumes "logic f = ''OR''" and "filters f \<noteq> []"
  shows "CombinedFilter_check f ev = Inr True \<longleftrightarrow>
     (\<exists>c\<in>set (filters f). c ev = Inr True) \<and> (\<forall>c\<in>set (filters f). \<exists>b. c ev = Inr b)"
proof (cases "collect_results (filters f) ev")
  case (Inl e)
  from collect_results_raises [OF Inl] Inl show ?thesis
    by (simp add: CombinedFilter_check_def)
next
  case (Inr rs)
  from collect_results_ex [OF Inr] collect_results_returns [OF Inr] Inr assms show ?thesis
    by (simp add: CombinedFilter_check_def)
qed

lemma collect_results_first_error:
  "i < length fs \<Longrightarrow> (fs ! i) ev = Inl e \<Longrightarrow> (\<forall>j<i. \<exists>b. (fs ! j) ev = Inr b) \<Longrightarrow>
   collect_results fs ev = Inl e"
proof (induction fs arbitrary: i)
  case Nil
  then show ?case by simp
next
  case (Cons c cs)
  show ?case
  proof (cases i)
    case 0
    with Cons.prems show ?thesis by simp
  next
    case (Suc k)
    with Cons.prems have "k < length cs" and "(cs ! k) ev = Inl e" by simp_all
    moreover have "\<forall>j<k. \<exists>b. (cs ! j) ev = Inr b"
    proof (intro allI impI)
      fix j assume "j < k"
      then have "Suc j < i" using Suc by simp
      with Cons.prems(3) have "\<exists>b. ((c # cs) ! Suc j) ev = Inr b" by blast
      then show "\<exists>b. (cs ! j) ev = Inr b" by simp
    qed
    ultimately have rest: "collect_results cs ev = Inl e" by (rule Cons.IH)
    from Cons.prems(3) Suc have "\<exists>b. ((c # cs) ! 0) ev = Inr b" by blast
    then obtain b where "c ev = Inr b" by auto
    with rest show ?thesis by simp
  qed
qed

lemma CombinedFilter_check_propagates:
  assumes "i < length (filters f)" and "(filters f ! i) ev = Inl e"
    and "\<forall>j<i. \<exists>b. (filters f ! j) ev = Inr b"
  shows "CombinedFilter_check f ev = Inl e"
proof -
  from assms(1) have "filters f \<noteq> []" by auto
  with collect_results_first_error [OF assms] show ?thesis
    by (simp add: CombinedFilter_check_def)
qed

lemma CombinedFilter_check_reduces:
  assumes "filters f \<noteq> []" and "\<forall>c\<in>set (filters f). \<exists>b. c ev = Inr b"
  shows "CombinedFilter_check f ev =
           Inr (if logic f = ''AND'' then (\<forall>c\<in>set (filters f). c ev = Inr True)
                else (\<exists>c\<in>set (filters f). c ev = Inr True))"
proof -
  from collect_results_total [OF assms(2)] obtain rs
    where rs: "collect_results (filters f) ev = Inr rs" ..
  from collect_results_all [OF rs] collect_results_ex [OF rs] rs assms(1) show ?thesis
    by (simp add: CombinedFilter_check_def)
qed

text \<open>
  Claim C4, as amended. With an empty child list \<^verbatim>\<open>check\<close> returns true under either mode;
  with mode \<^verbatim>\<open>"AND"\<close> it returns true exactly when every child's \<^verbatim>\<open>check\<close> returns true;
  with mode \<^verbatim>\<open>"OR"\<close> and a non-empty child list it returns true exactly when some child's
  \<^verbatim>\<open>check\<close> returns true and no child's \<^verbatim>\<open>check\<close> raises. Every child is called: when no
  child raises, \<^verbatim>\<open>check\<close> returns the conjunction (\<^verbatim>\<open>"AND"\<close>) or the disjunction (any other
  mode) of the children's results, and when a child raises, the exception of the first such
  child leaves \<^verbatim>\<open>check\<close>.
\<close>

theorem CombinedFilter_check_modes:
  "(filters f = [] \<longrightarrow> CombinedFilter_check f ev = Inr True) \<and>
   (logic f = ''AND'' \<longrightarrow>
      (CombinedFilter_check f ev = Inr True \<longleftrightarrow> (\<forall>c\<in>set (filters f). c ev = Inr True))) \<and>
   (logic f = ''OR'' \<and> filters f \<noteq> [] \<longrightarrow>
      (CombinedFilter_check f ev = Inr True \<longleftrightarrow>
         (\<exists>c\<in>set (filters f). c ev = Inr True) \<and> (\<forall>c\<in>set (filters f). \<exists>b. c ev = Inr b))) \<and>
   (filters f \<noteq> [] \<and> (\<forall>c\<in>set (filters f). \<exists>b. c ev = Inr b) \<longrightarrow>
      CombinedFilter_check f ev =
        Inr (if logic f = ''AND'' then (\<forall>c\<in>set (filters f). c ev = Inr True)
             else (\<exists>c\<in>set (filters f). c ev = Inr True))) \<and>
   (i < length (filters f) \<and> (filters f ! i) ev = Inl e \<and>
      (\<forall>j<i. \<exists>b. (filters f ! j) ev = Inr b) \<longrightarrow>
      CombinedFilter_check f ev = Inl e)"
proof -
  have empty: "filters f = [] \<longrightarrow> CombinedFilter_check f ev = Inr True"
    by (simp add: CombinedFilter_check_def)
  have reduces: "filters f \<noteq> [] \<and> (\<forall>c\<in>set (filters f). \<exists>b. c ev = Inr b) \<longrightarrow>
      CombinedFilter_check f ev =
        Inr (if logic f = ''AND'' then (\<forall>c\<in>set (filters f). c ev = Inr True)
             else (\<exists>c\<in>set (filters f). c ev = Inr True))"
    using CombinedFilter_check_reduces [of f ev] by blast
  have propagates: "i < length (filters f) \<and> (filters f ! i) ev = Inl e \<and>
      (\<forall>j<i. \<exists>b. (filters f ! j) ev = Inr b) \<longrightarrow> CombinedFilter_check f ev = Inl e"
    using CombinedFilter_check_propagates [of i f ev e] by blast
  from empty CombinedFilter_check_AND [of f ev] CombinedFilter_check_OR [of f ev] reduces propagates
  show ?thesis by blast
qed

text \<open>
  Claim C4 as stated fails: under \<^verbatim>\<open>"OR"\<close> the first child returns true on this event, but
  the second child raises, and so does the combined \<^verbatim>\<open>check\<close>.
\<close>

theorem CombinedFilter_check_OR_counterexample:
  "EventTypeFilter_check (EventTypeFilter_init [''taskStatusUpdated''])
     \<lparr>event = ''taskStatusUpdated'', task_id = ''t1'',
      history_items = Some [[(''before'', PDict [(''status'', PStr ''open'')])]]\<rparr> = Inr True \<and>
   CombinedFilter_check
     \<lparr>filters = [EventTypeFilter_check (EventTypeFilter_init [''taskStatusUpdated'']),
                 TaskStatusFilter_check \<lparr>from_status = None, to_status = None\<rparr>],
      logic = ''OR''\<rparr>
     \<lparr>event = ''taskStatusUpdated'', task_id = ''t1'',
      history_items = Some [[(''before'', PDict [(''status'', PStr ''open'')])]]\<rparr>
   = Inl AttributeError"
  by (simp add: CombinedFilter_check_def EventTypeFilter_check_def EventTypeFilter_init_def
        TaskStatusFilter_check_def TaskStatusFilter_item_def nested_status_def dict_get_def
        str_lower_def lower_char_def char_eval)

text \<open>
  Claim C4, witness: the amended theorem at an empty child list; at two children, the first
  returning true and the second false, under \<^verbatim>\<open>"OR"\<close> and under \<^verbatim>\<open>"AND"\<close>; and at two
  children of which the second raises.
\<close>

theorem CombinedFilter_check_modes_witness:
  "filters \<lparr>filters = [], logic = ''AND''\<rparr> = [] \<and>
   CombinedFilter_check \<lparr>filters = [], logic = ''AND''\<rparr>
     \<lparr>event = ''taskUpdated'', task_id = ''t1'', history_items = None\<rparr> = Inr True \<and>
   logic \<lparr>filters = [EventTypeFilter_check (EventTypeFilter_init [''TaskUpdated'']),
                      CustomFieldFilter_check \<lparr>field_id = Some ''X'', field_name = None\<rparr>],
           logic = ''OR''\<rparr> = ''OR'' \<and>
   CombinedFilter_check
     \<lparr>filters = [EventTypeFilter_check (EventTypeFilter_init [''TaskUpdated'']),
                 CustomFieldFilter_check \<lparr>field_id = Some ''X'', field_name = None\<rparr>],
      logic = ''OR''\<rparr>
     \<lparr>event = ''taskUpdated'', task_id = ''t1'', history_items = None\<rparr> = Inr True \<and>
   CombinedFilter_check
     \<lparr>filters = [EventTypeFilter_check (EventTypeFilter_init [''TaskUpdated'']),
                 CustomFieldFilter_check \<lparr>field_id = Some ''X'', field_name = None\<rparr>],
      logic = ''AND''\<rparr>
     \<lparr>event = ''taskUpdated'', task_id = ''t1'', history_items = None\<rparr> = Inr False \<and>
   (1::nat) < length [EventTypeFilter_check (EventTypeFilter_init [''taskStatusUpdated'']),
                      TaskStatusFilter_check \<lparr>from_status = None, to_status = None\<rparr>] \<and>
   CombinedFilter_check
     \<lparr>filters = [EventTypeFilter_check (EventTypeFilter_init [''taskStatusUpdated'']),
                 TaskStatusFilter_check \<lparr>from_status = None, to_status = None\<rparr>],
      logic = ''AND''\<rparr>
     \<lparr>event = ''taskStatusUpdated'', task_id = ''t1'',
      history_items = Some [[(''after'', PDict [(''status'', PStr ''done'')])]]\<rparr>
   = Inl AttributeError"
proof -
  let ?ev = "\<lparr>event = ''taskUpdated'', task_id = ''t1'', history_items = None\<rparr>"
  let ?a = "EventTypeFilter_check (EventTypeFilter_init [''TaskUpdated''])"
  let ?b = "CustomFieldFilter_check \<lparr>field_id = Some ''X'', field_name = None\<rparr>"
  let ?ev2 = "\<lparr>event = ''taskStatusUpdated'', task_id = ''t1'',
      history_items = Some [[(''after'', PDict [(''status'', PStr ''done'')])]]\<rparr>"
  let ?c = "EventTypeFilter_check (EventTypeFilter_init [''taskStatusUpdated''])"
  let ?d = "TaskStatusFilter_check \<lparr>from_status = None, to_status = None\<rparr>"
  have a: "?a ?ev = Inr True"
    by (simp add: EventTypeFilter_check_def EventTypeFilter_init_def str_lower_def lower_char_def
          char_eval)
  have b: "?b ?ev = Inr False"
    by (simp add: CustomFieldFilter_check_def)
  have c: "?c ?ev2 = Inr True"
    by (simp add: EventTypeFilter_check_def EventTypeFilter_init_def str_lower_def lower_char_def
          char_eval)
  have d: "?d ?ev2 = Inl AttributeError"
    by (simp add: TaskStatusFilter_check_def TaskStatusFilter_item_def nested_status_def
          dict_get_def)
  have first: "\<forall>j<(1::nat). \<exists>b. ([?c, ?d] ! j) ?ev2 = Inr b"
    using c by auto
  have raises: "CombinedFilter_check \<lparr>filters = [?c, ?d], logic = ''AND''\<rparr> ?ev2 = Inl AttributeError"
    using CombinedFilter_check_modes [of "\<lparr>filters = [?c, ?d], logic = ''AND''\<rparr>" ?ev2 1 AttributeError]
      first d by simp
  have or_true: "CombinedFilter_check \<lparr>filters = [?a, ?b], logic = ''OR''\<rparr> ?ev = Inr True"
    using CombinedFilter_check_modes [of "\<lparr>filters = [?a, ?b], logic = ''OR''\<rparr>" ?ev 0 AttributeError]
      a b by auto
  have and_false: "CombinedFilter_check \<lparr>filters = [?a, ?b], logic = ''AND''\<rparr> ?ev = Inr False"
    using CombinedFilter_check_modes [of "\<lparr>filters = [?a, ?b], logic = ''AND''\<rparr>" ?ev 0 AttributeError]
      a b by auto
  have empty: "CombinedFilter_check \<lparr>filters = [], logic = ''AND''\<rparr> ?ev = Inr True"
    using CombinedFilter_check_modes [of "\<lparr>filters = [], logic = ''AND''\<rparr>" ?ev 0 AttributeError]
    by simp
  from raises or_true and_false empty show ?thesis by simp
qed

subsection \<open>Construction\<close>

lemma collect_results_error:
  "collect_results fs ev = Inl e \<Longrightarrow> \<exists>c\<in>set fs. c ev = Inl e"
  by (induction fs) (auto split: sum.splits)

lemma TaskStatusFilter_item_errors:
  "TaskStatusFilter_item f item = Inl e \<Longrightarrow> e = AttributeError"
  by (auto simp: TaskStatusFilter_item_def nested_status_def status_differs_def Let_def
        split: if_splits option.splits sum.splits bool.splits pyval.splits
        elim!: py_lower.elims)

lemma str_upper_examples: "str_upper ''and'' = ''AND''" "str_upper ''Or'' = ''OR''" "str_upper ''xor'' = ''XOR''"
  by (simp_all add: str_upper_def upper_char_def char_eval)

lemma CombinedFilter_check_returns:
  assumes "\<forall>child\<in>set (filters c). \<exists>b. child ev = Inr b"
  shows "\<exists>b. CombinedFilter_check c ev = Inr b"
proof -
  from collect_results_total [OF assms] obtain rs where "collect_results (filters c) ev = Inr rs" ..
  then show ?thesis by (auto simp: CombinedFilter_check_def)
qed

text \<open>
  Claim C6. Constructing a \<^verbatim>\<open>CustomFieldFilter\<close> raises \<^verbatim>\<open>ValueError\<close> exactly when both
  \<^verbatim>\<open>field_id\<close> and \<^verbatim>\<open>field_name\<close> are missing or empty, and constructing a
  \<^verbatim>\<open>CombinedFilter\<close> raises \<^verbatim>\<open>ValueError\<close> exactly when the upper-cased logic string is
  neither \<^verbatim>\<open>"AND"\<close> nor \<^verbatim>\<open>"OR"\<close>. Nothing is left for \<^verbatim>\<open>check\<close>: that of a
  \<^verbatim>\<open>CustomFieldFilter\<close> never raises \<^verbatim>\<open>ValueError\<close>, and that of a \<^verbatim>\<open>CombinedFilter\<close>
  returns whenever its children return.
\<close>

theorem configuration_errors_at_construction:
  "(\<not> truthy_opt fid \<and> \<not> truthy_opt fname \<longrightarrow> CustomFieldFilter_init fid fname = Inl ValueError) \<and>
   (truthy_opt fid \<or> truthy_opt fname \<longrightarrow>
      CustomFieldFilter_init fid fname = Inr \<lparr>field_id = fid, field_name = fname\<rparr>) \<and>
   CustomFieldFilter_init None None = Inl ValueError \<and>
   (str_upper l \<noteq> ''AND'' \<and> str_upper l \<noteq> ''OR'' \<longrightarrow> CombinedFilter_init fs l = Inl ValueError) \<and>
   (str_upper l = ''AND'' \<or> str_upper l = ''OR'' \<longrightarrow>
      CombinedFilter_init fs l = Inr \<lparr>filters = fs, logic = str_upper l\<rparr>) \<and>
   CustomFieldFilter_check f ev \<noteq> Inl ValueError \<and>
   ((\<forall>child\<in>set (filters c). \<exists>b. child ev = Inr b) \<longrightarrow> (\<exists>b. CombinedFilter_check c ev = Inr b))"
proof -
  have "CustomFieldFilter_check f ev \<noteq> Inl ValueError"
    using CustomFieldFilter_check_errors [of f ev ValueError] by auto
  moreover have "(\<forall>child\<in>set (filters c). \<exists>b. child ev = Inr b) \<longrightarrow>
      (\<exists>b. CombinedFilter_check c ev = Inr b)"
    using CombinedFilter_check_returns [of c ev] by blast
  ultimately show ?thesis
    by (auto simp: CustomFieldFilter_init_def CombinedFilter_init_def)
qed

text \<open>
  Claim C6, witness: the theorem at an invalid and at a valid configuration of each
  constructor.
\<close>

theorem configuration_errors_at_construction_witness:
  "\<not> truthy_opt (Some []) \<and> \<not> truthy_opt None \<and>
   CustomFieldFilter_init (Some []) None = Inl ValueError \<and>
   truthy_opt (Some ''Priority'') \<and>
   CustomFieldFilter_init None (Some ''Priority'') = Inr \<lparr>field_id = None, field_name = Some ''Priority''\<rparr> \<and>
   str_upper ''xor'' \<noteq> ''AND'' \<and> str_upper ''xor'' \<noteq> ''OR'' \<and>
   CombinedFilter_init [] ''xor'' = Inl ValueError \<and>
   str_upper ''and'' = ''AND'' \<and>
   CombinedFilter_init [] ''and'' = Inr \<lparr>filters = [], logic = ''AND''\<rparr> \<and>
   (\<exists>b. CombinedFilter_check
          \<lparr>filters = [CustomFieldFilter_check \<lparr>field_id = None, field_name = Some ''Priority''\<rparr>],
           logic = ''xor''\<rparr>
          \<lparr>event = ''taskCreated'', task_id = ''t1'', history_items = None\<rparr> = Inr b)"
proof -
  let ?ev = "\<lparr>event = ''taskCreated'', task_id = ''t1'', history_items = None\<rparr>"
  let ?child = "CustomFieldFilter_check \<lparr>field_id = None, field_name = Some ''Priority''\<rparr>"
  have child: "?child ?ev = Inr False"
    by (simp add: CustomFieldFilter_check_def)
  show ?thesis
    using configuration_errors_at_construction
        [of "Some []" None "''xor''" "[]" "\<lparr>field_id = None, field_name = Some ''Priority''\<rparr>" ?ev
            "\<lparr>filters = [?child], logic = ''xor''\<rparr>"]
      configuration_errors_at_construction
        [of None "Some ''Priority''" "''and''" "[]" "\<lparr>field_id = None, field_name = Some ''Priority''\<rparr>" ?ev
            "\<lparr>filters = [?child], logic = ''xor''\<rparr>"]
    by (auto simp: child str_upper_examples)
qed

subsection \<open>The filters on history items that do not raise\<close>

lemma nested_id_match_attribute:
  "nested_id_match (dict_get item side (PDict [])) sid \<longleftrightarrow>
     nested_attribute item side ''id'' = PStr sid \<or> nested_attribute item side ''field_id'' = PStr sid"
  by (cases "dict_get item side (PDict [])") (simp_all add: nested_id_match_def nested_attribute_def)

lemma check_by_id_strategies:
  "check_by_id sid item \<longleftrightarrow> strategy_1 sid item \<or> strategy_2 sid item \<or> strategy_3 sid item"
  unfolding check_by_id_def strategy_1_def strategy_2_def strategy_3_def Let_def
    nested_id_match_attribute
  by auto

lemma str_lower_Nil: "str_lower s = [] \<longleftrightarrow> s = []"
  by (simp add: str_lower_def)

lemma name_value_match:
  assumes "name \<noteq> []"
    and "(if truthy v then (case py_lower v of Inl e \<Rightarrow> Inl e
                              | Inr l \<Rightarrow> Inr (str_contains (str_lower name) l))
          else Inr False) = Inr b"
  shows "b = contains_ignoring_case name v"
  using assms
  by (cases v) (auto simp: contains_ignoring_case_def str_lower_Nil str_lower_def [of "[]"] split: if_splits)

lemma nested_name_match_attribute:
  assumes "name \<noteq> []" and "nested_name_match (dict_get item side (PDict [])) name = Inr b"
  shows "b = contains_ignoring_case name (nested_attribute item side ''name'')"
proof (cases "dict_get item side (PDict [])")
  case (PDict d)
  have same: "dict_get d ''name'' (PStr []) = dict_get d ''name'' PNone" if "truthy (dict_get d ''name'' PNone)"
    using that by (auto simp: dict_get_def split: option.splits)
  from assms(2) PDict
  have "(if truthy (dict_get d ''name'' PNone)
         then (case py_lower (dict_get d ''name'' PNone) of Inl e \<Rightarrow> Inl e
               | Inr l \<Rightarrow> Inr (str_contains (str_lower name) l))
         else Inr False) = Inr b"
    by (auto simp: nested_name_match_def same split: if_splits)
  from name_value_match [OF assms(1) this] PDict show ?thesis
    by (simp add: nested_attribute_def)
qed (use assms(2) in \<open>simp_all add: nested_name_match_def nested_attribute_def contains_ignoring_case_def\<close>)


lemma check_by_name_strategies:
  assumes "name \<noteq> []" and "check_by_name name item = Inr b"
  shows "b = (strategy_4 name item \<or> strategy_5 name item)"
proof -
  let ?field = "dict_get item ''field'' (PStr [])"
  let ?after = "nested_name_match (dict_get item ''after'' (PDict [])) name"
  let ?before = "nested_name_match (dict_get item ''before'' (PDict [])) name"
  let ?nested = "case ?after of Inl e \<Rightarrow> Inl e | Inr True \<Rightarrow> Inr True | Inr False \<Rightarrow> ?before"
  have unfold: "check_by_name name item =
      (if truthy ?field then
         (case py_lower ?field of Inl e \<Rightarrow> Inl e
          | Inr l \<Rightarrow> if str_contains (str_lower name) l then Inr True else ?nested)
       else ?nested)"
    by (simp add: check_by_name_def Let_def)
  have nested: "c = strategy_5 name item" if "?nested = Inr c" for c
  proof (cases ?after)
    case (Inl e)
    with that show ?thesis by simp
  next
    case (Inr a)
    note a = nested_name_match_attribute [OF assms(1) Inr]
    show ?thesis
    proof (cases a)
      case True
      with Inr that a show ?thesis by (simp add: strategy_5_def)
    next
      case False
      with Inr that have "?before = Inr c" by simp
      from nested_name_match_attribute [OF assms(1) this] False a show ?thesis
        by (simp add: strategy_5_def)
    qed
  qed
  show ?thesis
  proof (cases "truthy ?field")
    case False
    then have "\<not> strategy_4 name item"
      using assms(1)
      by (cases ?field) (auto simp: strategy_4_def contains_ignoring_case_def str_lower_Nil
            str_lower_def [of "[]"])
    moreover from False assms(2) have "?nested = Inr b" by (simp add: unfold)
    ultimately show ?thesis using nested by simp
  next
    case True
    with assms(2) obtain l where l: "py_lower ?field = Inr l"
      and rest: "(if str_contains (str_lower name) l then Inr True else ?nested) = Inr b"
      by (cases "py_lower ?field") (simp_all add: unfold)
    from l obtain s where s: "?field = PStr s" "l = str_lower s"
      by (cases ?field) simp_all
    then have s4: "strategy_4 name item = str_contains (str_lower name) l"
      by (simp add: strategy_4_def contains_ignoring_case_def)
    show ?thesis
    proof (cases "str_contains (str_lower name) l")
      case True
      with rest s4 show ?thesis by simp
    next
      case False
      with rest have "?nested = Inr b" by simp
      with nested False s4 show ?thesis by simp
    qed
  qed
qed

lemma CustomFieldFilter_item_matches:
  assumes "CustomFieldFilter_item f item = Inr b"
  shows "b = item_matches f item"
proof (cases "case field_id f of None \<Rightarrow> False | Some sid \<Rightarrow> sid \<noteq> [] \<and> check_by_id sid item")
  case True
  then have "item_matches f item"
    by (auto simp: item_matches_def check_by_id_strategies split: option.splits)
  moreover from True assms have "b" by (simp add: CustomFieldFilter_item_def)
  ultimately show ?thesis by simp
next
  case False
  then have by_id: "\<not> (case field_id f of None \<Rightarrow> False
      | Some sid \<Rightarrow> sid \<noteq> [] \<and> (strategy_1 sid item \<or> strategy_2 sid item \<or> strategy_3 sid item))"
    by (auto simp: check_by_id_strategies split: option.splits)
  show ?thesis
  proof (cases "field_name f")
    case None
    with False assms by_id show ?thesis
      by (simp add: CustomFieldFilter_item_def item_matches_def)
  next
    case (Some name)
    show ?thesis
    proof (cases "name = []")
      case True
      with Some False assms by_id show ?thesis
        by (simp add: CustomFieldFilter_item_def item_matches_def)
    next
      case ne: False
      with Some False assms have "check_by_name name item = Inr b"
        by (simp add: CustomFieldFilter_item_def)
      from check_by_name_strategies [OF ne this] Some ne by_id show ?thesis
        by (simp add: item_matches_def)
    qed
  qed
qed

lemma CustomFieldFilter_check_when_no_item_raises:
  assumes "event ev = ''taskUpdated''" and "history_items ev = Some items"
    and "\<forall>item\<in>set items. \<exists>b. CustomFieldFilter_item f item = Inr b"
  shows "CustomFieldFilter_check f ev = Inr (\<exists>item\<in>set items. item_matches f item)"
proof -
  have "(\<exists>item\<in>set items. CustomFieldFilter_item f item = Inr True) \<longleftrightarrow>
        (\<exists>item\<in>set items. item_matches f item)"
    using assms(3) CustomFieldFilter_item_matches [of f] by (metis (full_types))
  with for_items_no_error [OF assms(3)] assms(1,2) show ?thesis
    by (cases items) (simp_all add: CustomFieldFilter_check_def)
qed

lemma nested_status_text:
  "nested_status (dict_get item side (PDict [])) = Inr v \<Longrightarrow> v = status_text item side"
  by (cases "dict_get item side (PDict [])")
     (auto simp: nested_status_def status_text_def split: pyval.splits)

lemma status_differs_constraint:
  "status_differs c st = Inr b \<Longrightarrow> b = (\<not> constraint_holds c st)"
  by (cases c; cases st) (auto simp: status_differs_def constraint_holds_def split: if_splits)

lemma TaskStatusFilter_item_matches:
  assumes "TaskStatusFilter_item f item = Inr b"
  shows "b = transition_matches f item"
proof -
  let ?b = "nested_status (dict_get item ''before'' (PDict []))"
  let ?a = "nested_status (dict_get item ''after'' (PDict []))"
  from assms obtain old where old: "?b = Inr old"
    by (cases ?b) (simp_all add: TaskStatusFilter_item_def)
  from assms old obtain new where new: "?a = Inr new"
    by (cases ?a) (simp_all add: TaskStatusFilter_item_def)
  from assms old new obtain d1 where d1: "status_differs (from_status f) old = Inr d1"
    by (cases "status_differs (from_status f) old") (simp_all add: TaskStatusFilter_item_def)
  note o = nested_status_text [OF old] and n = nested_status_text [OF new]
    and c1 = status_differs_constraint [OF d1]
  show ?thesis
  proof (cases d1)
    case True
    with assms old new d1 c1 o show ?thesis
      by (simp add: TaskStatusFilter_item_def transition_matches_def)
  next
    case False
    with assms old new d1 obtain d2 where d2: "status_differs (to_status f) new = Inr d2"
      by (cases "status_differs (to_status f) new") (simp_all add: TaskStatusFilter_item_def)
    from assms old new d1 d2 False have "b = (\<not> d2)"
      by (cases d2) (simp_all add: TaskStatusFilter_item_def)
    with status_differs_constraint [OF d2] c1 False o n show ?thesis
      by (simp add: transition_matches_def)
  qed
qed

lemma TaskStatusFilter_check_when_no_item_raises:
  assumes "event ev = ''taskStatusUpdated''" and "history_items ev = Some items"
    and "\<forall>item\<in>set items. \<exists>b. TaskStatusFilter_item f item = Inr b"
  shows "TaskStatusFilter_check f ev = Inr (\<exists>item\<in>set items. transition_matches f item)"
proof -
  have "(\<exists>item\<in>set items. TaskStatusFilter_item f item = Inr True) \<longleftrightarrow>
        (\<exists>item\<in>set items. transition_matches f item)"
    using assms(3) TaskStatusFilter_item_matches [of f] by (metis (full_types))
  with for_items_no_error [OF assms(3)] assms(1,2) show ?thesis
    by (cases items) (simp_all add: TaskStatusFilter_check_def)
qed

lemma transition_matches_unconstrained:
  "\<not> truthy_opt (from_status f) \<Longrightarrow> \<not> truthy_opt (to_status f) \<Longrightarrow> transition_matches f item"
  by (cases "from_status f"; cases "to_status f")
     (simp_all add: transition_matches_def constraint_holds_def)

subsection \<open>The filters on history items that raise\<close>

text \<open>
  Claim C1 says that a wrong-shaped nesting yields the empty string and that \<^verbatim>\<open>check\<close> never
  raises. With a string under the \<^verbatim>\<open>"status"\<close> key of \<^verbatim>\<open>before\<close>, the specification's
  reading of the status text is the empty string, but the code calls the second \<^verbatim>\<open>.get\<close>
  on that string and \<^verbatim>\<open>check\<close> raises \<^verbatim>\<open>AttributeError\<close>.
\<close>

theorem TaskStatusFilter_check_raises_on_flat_status:
  "status_text [(''before'', PDict [(''status'', PStr ''open'')]),
                (''after'', PDict [(''status'', PStr ''complete'')])] ''before'' = PStr [] \<and>
   TaskStatusFilter_check \<lparr>from_status = None, to_status = Some ''complete''\<rparr>
     \<lparr>event = ''taskStatusUpdated'', task_id = ''t1'',
      history_items = Some [[(''before'', PDict [(''status'', PStr ''open'')]),
                             (''after'', PDict [(''status'', PStr ''complete'')])]]\<rparr>
   = Inl AttributeError"
  by (simp add: TaskStatusFilter_check_def TaskStatusFilter_item_def nested_status_def dict_get_def
        status_text_def)

text \<open>
  Claim C3 says that without constraints the first history item unconditionally yields true.
  On a history item whose \<^verbatim>\<open>before\<close> and \<^verbatim>\<open>after\<close> hold the status text directly under
  \<^verbatim>\<open>"status"\<close>, the item matches in the specification's wording, and the filter without
  constraints raises \<^verbatim>\<open>AttributeError\<close> instead of returning true.
\<close>

theorem TaskStatusFilter_check_first_item_raises:
  "transition_matches \<lparr>from_status = None, to_status = None\<rparr>
     [(''field'', PStr ''status''),
      (''before'', PDict [(''status'', PStr ''to do'')]),
      (''after'', PDict [(''status'', PStr ''in progress'')])] \<and>
   TaskStatusFilter_check \<lparr>from_status = None, to_status = None\<rparr>
     \<lparr>event = ''taskStatusUpdated'', task_id = ''t1'',
      history_items = Some [[(''field'', PStr ''status''),
                             (''before'', PDict [(''status'', PStr ''to do'')]),
                             (''after'', PDict [(''status'', PStr ''in progress'')])]]\<rparr>
   = Inl AttributeError"
  by (simp add: TaskStatusFilter_check_def TaskStatusFilter_item_def nested_status_def dict_get_def
        transition_matches_def constraint_holds_def)

text \<open>
  Claim C2 says that \<^verbatim>\<open>check\<close> returns true whenever some history item satisfies one of the
  strategies. Here the \<^verbatim>\<open>name\<close> attribute of \<^verbatim>\<open>before\<close> contains the filter's name
  (strategy 5), but the \<^verbatim>\<open>name\<close> attribute of \<^verbatim>\<open>after\<close> is the number 5, on which
  \<^verbatim>\<open>.lower()\<close> raises \<^verbatim>\<open>AttributeError\<close> before \<^verbatim>\<open>before\<close> is looked at.
\<close>

theorem CustomFieldFilter_check_raises_on_non_string_name:
  "strategy_5 ''Priority'' [(''after'', PDict [(''name'', PInt 5)]),
                            (''before'', PDict [(''name'', PStr ''Priority'')])] \<and>
   CustomFieldFilter_check \<lparr>field_id = None, field_name = Some ''Priority''\<rparr>
     \<lparr>event = ''taskUpdated'', task_id = ''t1'',
      history_items = Some [[(''after'', PDict [(''name'', PInt 5)]),
                             (''before'', PDict [(''name'', PStr ''Priority'')])]]\<rparr>
   = Inl AttributeError"
  by (simp add: CustomFieldFilter_check_def CustomFieldFilter_item_def check_by_name_def
        nested_name_match_def dict_get_def strategy_5_def contains_ignoring_case_def
        nested_attribute_def str_lower_def lower_char_def char_eval)

end
